theory Spec2Isabelle
  imports Main "HOL-Library.AList"
begin

section \<open>Response parsing of minio/datatypes.py\<close>

text \<open>
  A shallow embedding of \<^verbatim>\<open>src/minio/datatypes.py\<close>: the result classes of the
  ListBuckets, ListObjects (three variants), ListParts, ListMultipartUploads and
  CompleteMultipartUpload calls, and the functions that build them from a response.

  Python strings are \<open>string\<close>; an attribute that is a string or \<^verbatim>\<open>None\<close> is a
  \<open>string option\<close>; an exception is the \<open>Inl\<close> of a sum. Statements of the source
  are kept in their order, because the first exception raised is the one that leaves the
  function.
\<close>

subsection \<open>Errors and dynamically typed values\<close>

datatype error = MalformedResponse | ValueError | ParseError

text \<open>
  Some attributes hold values of different Python types depending on the input: after
  \<^verbatim>\<open>size = findtext(element, "Size")\<close> and \<^verbatim>\<open>if size: size = int(size)\<close> the
  variable is \<^verbatim>\<open>None\<close>, the empty string or an integer. Such attributes are values of
  \<open>pyval\<close>; \<open>'i\<close> is the type of instants that the timestamp parser returns.
\<close>

datatype 'i pyval = PyNone | PyStr string | PyInt int | PyTime 'i

definition is_integer :: "'i pyval \<Rightarrow> bool" where
  "is_integer v = (case v of PyInt _ \<Rightarrow> True | _ \<Rightarrow> False)"

text \<open>Sequencing of statements that may raise: the first error leaves the function.\<close>

definition on_ok :: "error + 'a \<Rightarrow> ('a \<Rightarrow> error + 'b) \<Rightarrow> error + 'b" where
  "on_ok m f = (case m of Inl e \<Rightarrow> Inl e | Inr x \<Rightarrow> f x)"

text \<open>A list comprehension \<^verbatim>\<open>[f(x) for x in xs]\<close> whose body may raise.\<close>

fun comprehension :: "('a \<Rightarrow> error + 'b) \<Rightarrow> 'a list \<Rightarrow> error + 'b list" where
  "comprehension f [] = Inr []"
| "comprehension f (x # xs) =
     on_ok (f x) (\<lambda>y. on_ok (comprehension f xs) (\<lambda>ys. Inr (y # ys)))"

subsection \<open>String methods\<close>

text \<open>
  \<^verbatim>\<open>str.lower()\<close> on the ASCII letters; other characters are left as they are.
\<close>

definition str_lower :: "string \<Rightarrow> string" where
  "str_lower s =
     map (\<lambda>c. if 65 \<le> (of_char c :: nat) \<and> (of_char c :: nat) \<le> 90
               then char_of ((of_char c :: nat) + 32) else c) s"

text \<open>\<^verbatim>\<open>s.replace('"', "")\<close>: every double quote (character 0x22) is deleted.\<close>

definition replace_quote :: "string \<Rightarrow> string" where
  "replace_quote s = filter (\<lambda>c. c \<noteq> CHR 0x22) s"

text \<open>\<^verbatim>\<open>x or ""\<close> for \<^verbatim>\<open>x\<close> a string or \<^verbatim>\<open>None\<close>.\<close>

definition or_empty :: "string option \<Rightarrow> string" where
  "or_empty x = (case x of None \<Rightarrow> [] | Some s \<Rightarrow> if s = [] then [] else s)"

subsection \<open>XML elements and the navigation helpers\<close>

text \<open>
  An element of \<^verbatim>\<open>xml.etree.ElementTree\<close>: its tag (a namespaced tag reads
  \<^verbatim>\<open>{uri}local\<close>), its text (\<^verbatim>\<open>None\<close> for an element without text) and its child
  elements in document order.
\<close>

datatype element =
  Element (tag: string) (text_elem: "string option") (children: "element list")

text \<open>
  The helpers \<^verbatim>\<open>find\<close>, \<^verbatim>\<open>findall\<close> and \<^verbatim>\<open>findtext\<close> are imported from
  \<^verbatim>\<open>minio/xml.py\<close>, which is not among the sources at hand; section 4.1 of the
  specification gives their contract, and the five definitions below follow it.
\<close>

text \<open>
  Modelled from the spec: the local name of a tag, used by the helpers of
  \<^verbatim>\<open>minio/xml.py\<close>, which must "match by local name, ignore namespace": the part
  of the tag after the closing brace of the namespace.
\<close>

definition local_name :: "string \<Rightarrow> string" where
  "local_name t =
     (if CHR ''}'' \<in> set t then tl (dropWhile (\<lambda>c. c \<noteq> CHR ''}'') t) else t)"

text \<open>
  Modelled from the spec: \<^verbatim>\<open>findall(element, tagName)\<close> of \<^verbatim>\<open>minio/xml.py\<close>, the
  sequence of the children of the element with that local name, in document order.
\<close>

definition findall :: "element \<Rightarrow> string \<Rightarrow> element list" where
  "findall element name = filter (\<lambda>c. local_name (tag c) = name) (children element)"

text \<open>
  Modelled from the spec: \<^verbatim>\<open>find(element, tagName)\<close> of \<^verbatim>\<open>minio/xml.py\<close>, the first
  child of the element with that local name, or the absent value.
\<close>

definition find_xml :: "element \<Rightarrow> string \<Rightarrow> element option" where
  "find_xml element name =
     (case findall element name of [] \<Rightarrow> None | c # _ \<Rightarrow> Some c)"

text \<open>
  Modelled from the spec: \<^verbatim>\<open>findtext(element, tagName)\<close> of \<^verbatim>\<open>minio/xml.py\<close>
  without the \<^verbatim>\<open>required\<close> flag: the text of the element found (the empty string
  for an element without text), or the absent value when there is no such element.
\<close>

definition findtext :: "element \<Rightarrow> string \<Rightarrow> string option" where
  "findtext element name =
     (case find_xml element name of
        None \<Rightarrow> None
      | Some c \<Rightarrow> Some (case text_elem c of None \<Rightarrow> [] | Some t \<Rightarrow> t))"

text \<open>
  Modelled from the spec: \<^verbatim>\<open>findtext(element, tagName, True)\<close> of
  \<^verbatim>\<open>minio/xml.py\<close>, which "fails with a MalformedResponse error if the tag is absent
  or empty".
\<close>

definition findtext_strict :: "element \<Rightarrow> string \<Rightarrow> error + string" where
  "findtext_strict element name =
     (case findtext element name of
        None \<Rightarrow> Inl MalformedResponse
      | Some t \<Rightarrow> if t = [] then Inl MalformedResponse else Inr t)"

subsection \<open>Functions of other libraries\<close>

text \<open>
  The module calls four functions that are defined elsewhere; they are parameters of the
  model, so that every theorem holds for whatever they compute:
  \<^item> \<open>ET_fromstring\<close>: \<^verbatim>\<open>ET.fromstring(response.data.decode())\<close>, the parse of the
    body, which raises on a body that is not well-formed;
  \<^item> \<open>strptime_rfc3339\<close>: the timestamp parser of \<^verbatim>\<open>minio/helpers.py\<close>;
  \<^item> \<open>int_str\<close>: the builtin \<^verbatim>\<open>int\<close> on a string;
  \<^item> \<open>unquote\<close>: \<^verbatim>\<open>urllib.parse.unquote\<close>.
\<close>

record 'i externals =
  ET_fromstring :: "string \<Rightarrow> error + element"
  strptime_rfc3339 :: "string \<Rightarrow> error + 'i"
  int_str :: "string \<Rightarrow> error + int"
  unquote :: "string \<Rightarrow> string"

text \<open>
  The response object of the HTTP layer is not part of the module; section 6 of the
  specification gives it an ordered header list with case-insensitive lookup by name, and
  the body as bytes.
\<close>

record response =
  headers :: "(string \<times> string) list"
  data :: string

text \<open>
  Modelled from the spec: \<^verbatim>\<open>response.getheader(name)\<close>, the case-insensitive lookup
  of a header; it gives the value of the first header of that name.
\<close>

definition getheader :: "response \<Rightarrow> string \<Rightarrow> string option" where
  "getheader r name =
     map_of (map (\<lambda>(k, v). (str_lower k, v)) (headers r)) (str_lower name)"

text \<open>
  Modelled from the spec: \<^verbatim>\<open>response.getheaders()\<close>, the header list of the response
  as an ordered sequence of pairs of a name and a value.
\<close>

definition getheaders :: "response \<Rightarrow> (string \<times> string) list" where
  "getheaders r = headers r"

subsection \<open>Bucket and ListAllMyBucketsResult\<close>

record 'i Bucket =
  name :: string
  creation_date :: "'i pyval"


text \<open>
  \<^verbatim>\<open>if creation_date: creation_date = strptime_rfc3339(creation_date)\<close>, and the same
  statement for the initiated time of an upload: \<^verbatim>\<open>None\<close> and the empty string are
  falsy and stay.
\<close>

definition time_if_truthy :: "'i externals \<Rightarrow> string option \<Rightarrow> error + 'i pyval" where
  "time_if_truthy X x =
     (case x of
        None \<Rightarrow> Inr PyNone
      | Some s \<Rightarrow> if s = [] then Inr (PyStr s)
                  else on_ok (strptime_rfc3339 X s) (\<lambda>t. Inr (PyTime t)))"

text \<open>\<^verbatim>\<open>if v: v = int(v)\<close>.\<close>

definition int_if_truthy :: "'i externals \<Rightarrow> string option \<Rightarrow> error + 'i pyval" where
  "int_if_truthy X x =
     (case x of
        None \<Rightarrow> Inr PyNone
      | Some s \<Rightarrow> if s = [] then Inr (PyStr s)
                  else on_ok (int_str X s) (\<lambda>n. Inr (PyInt n)))"



subsection \<open>Object\<close>

record 'i Object =
  bucket_name :: string
  object_name :: "string option"
  last_modified :: "'i option"
  etag :: "string option"
  size_field :: "int option"
  metadata :: "(string \<times> string option) list option"
  version_id :: "string option"
  is_latest :: "string option"
  storage_class :: "string option"
  owner_id :: "string option"
  owner_name :: "string option"
  content_type :: "string option"

text \<open>
  The constructor \<^verbatim>\<open>Object(bucket_name, object_name)\<close> with every keyword argument at
  its default \<^verbatim>\<open>None\<close>.
\<close>

definition Object_init :: "string \<Rightarrow> string option \<Rightarrow> 'i Object" where
  "Object_init bucket_name' object_name' =
     \<lparr>bucket_name = bucket_name', object_name = object_name', last_modified = None,
      etag = None, size_field = None, metadata = None, version_id = None,
      is_latest = None, storage_class = None, owner_id = None, owner_name = None,
      content_type = None\<rparr>"

text \<open>
  \<^verbatim>\<open>child.tag.split("}")[1] if "}" in child.tag else child.tag\<close>: the piece between
  the first closing brace and the next one (or the end).
\<close>

definition metadata_key :: "string \<Rightarrow> string" where
  "metadata_key t =
     (if CHR ''}'' \<in> set t
      then takeWhile (\<lambda>c. c \<noteq> CHR ''}'') (tl (dropWhile (\<lambda>c. c \<noteq> CHR ''}'') t))
      else t)"

text \<open>
  \<^verbatim>\<open>find(element, "UserMetadata") or []\<close>: an element without children is falsy.
  The dictionary is an association list; an assignment to a key that is there replaces
  its value in place, a new key goes to the end.
\<close>

definition user_metadata :: "element \<Rightarrow> (string \<times> string option) list" where
  "user_metadata element =
     (let tag' = (case find_xml element ''UserMetadata'' of
                    None \<Rightarrow> []
                  | Some t \<Rightarrow> if children t = [] then [] else children t)
      in foldl (\<lambda>metadata child.
                  AList.update (metadata_key (tag child)) (text_elem child) metadata)
           [] tag')"

definition Object_fromxml ::
  "'i externals \<Rightarrow> element \<Rightarrow> string \<Rightarrow> error + 'i Object" where
  "Object_fromxml X element bucket_name' =
     on_ok (case findtext element ''LastModified'' of
              None \<Rightarrow> Inr None
            | Some t \<Rightarrow> on_ok (strptime_rfc3339 X t) (\<lambda>i. Inr (Some i)))
       (\<lambda>last_modified.
     let etag = (case findtext element ''ETag'' of
                   None \<Rightarrow> None | Some t \<Rightarrow> Some (replace_quote t)) in
     on_ok (case findtext element ''Size'' of
              None \<Rightarrow> Inr None
            | Some t \<Rightarrow> on_ok (int_str X t) (\<lambda>n. Inr (Some n)))
       (\<lambda>size.
     let (owner_id, owner_name) =
           (case find_xml element ''Owner'' of
              None \<Rightarrow> (None, None)
            | Some t \<Rightarrow> (findtext t ''ID'', findtext t ''DisplayName''));
         metadata = user_metadata element
     in Inr \<lparr>bucket_name = bucket_name',
             object_name = findtext element ''Key'',
             last_modified = last_modified,
             etag = etag,
             size_field = size,
             metadata = Some metadata,
             version_id = findtext element ''VersionId'',
             is_latest = findtext element ''IsLatest'',
             storage_class = findtext element ''StorageClass'',
             owner_id = owner_id,
             owner_name = owner_name,
             content_type = None\<rparr>))"

subsection \<open>parse_list_objects\<close>

definition parse_list_objects ::
  "'i externals \<Rightarrow> response \<Rightarrow> string \<Rightarrow>
     error + ('i Object list \<times> bool \<times> string option \<times> string option)" where
  "parse_list_objects X response bucket_name' =
     on_ok (ET_fromstring X (data response)) (\<lambda>element.
     on_ok (comprehension (\<lambda>tag. Object_fromxml X tag bucket_name')
              (findall element ''Contents'')) (\<lambda>objects.
     let marker = (if objects \<noteq> [] then object_name (last objects) else None) in
     on_ok (comprehension (\<lambda>tag. Object_fromxml X tag bucket_name')
              (findall element ''Version'')) (\<lambda>versions.
     let objects = objects @ versions;
         objects = objects @ map (\<lambda>tag. Object_init bucket_name' (findtext tag ''Prefix''))
                               (findall element ''CommonPrefixes'') in
     on_ok (comprehension (\<lambda>tag. Object_fromxml X tag bucket_name')
              (findall element ''DeleteMarker'')) (\<lambda>delete_markers.
     let objects = objects @ delete_markers;
         is_truncated = (str_lower (or_empty (findtext element ''IsTruncated'')) = ''true'');
         key_marker = findtext element ''NextKeyMarker'';
         version_id_marker = findtext element ''NextVersionIdMarker'';
         continuation_token = findtext element ''NextContinuationToken'';
         continuation_token =
           (if key_marker \<noteq> None then key_marker else continuation_token);
         continuation_token =
           (if continuation_token = None then findtext element ''NextMarker''
            else continuation_token);
         continuation_token =
           (if continuation_token = None \<and> is_truncated then marker
            else continuation_token)
     in Inr (objects, is_truncated, continuation_token, version_id_marker)))))"

subsection \<open>CompleteMultipartUploadResult\<close>

record CompleteMultipartUploadResult =
  bucket_name :: "string option"
  object_name :: "string option"
  location :: "string option"
  etag :: "string option"
  version_id :: "string option"
  http_headers :: "(string \<times> string) list"

definition CompleteMultipartUploadResult_init ::
  "'i externals \<Rightarrow> response \<Rightarrow> error + CompleteMultipartUploadResult" where
  "CompleteMultipartUploadResult_init X response =
     on_ok (ET_fromstring X (data response)) (\<lambda>element.
     let etag' = findtext element ''ETag'';
         etag' = (case etag' of
                    None \<Rightarrow> None
                  | Some t \<Rightarrow> if t = [] then Some t else Some (replace_quote t))
     in Inr \<lparr>CompleteMultipartUploadResult.bucket_name = findtext element ''Bucket'',
             CompleteMultipartUploadResult.object_name = findtext element ''Key'',
             CompleteMultipartUploadResult.location = findtext element ''Location'',
             CompleteMultipartUploadResult.etag = etag',
             CompleteMultipartUploadResult.version_id =
               getheader response ''x-amz-version-id'',
             CompleteMultipartUploadResult.http_headers = getheaders response\<rparr>)"

subsection \<open>Part and ListPartsResult\<close>

record 'i Part =
  part_number :: "'i pyval"
  etag :: string
  last_modified :: "'i option"
  size_field :: "'i pyval"

definition Part_fromxml :: "'i externals \<Rightarrow> element \<Rightarrow> error + 'i Part" where
  "Part_fromxml X element =
     on_ok (findtext_strict element ''PartNumber'') (\<lambda>part_number'.
     on_ok (findtext_strict element ''ETag'') (\<lambda>etag'.
     let etag' = replace_quote etag' in
     on_ok (case findtext element ''LastModified'' of
              None \<Rightarrow> Inr None
            | Some t \<Rightarrow> on_ok (strptime_rfc3339 X t) (\<lambda>i. Inr (Some i)))
       (\<lambda>last_modified'.
     on_ok (int_if_truthy X (findtext element ''Size'')) (\<lambda>size'.
     Inr \<lparr>Part.part_number = PyStr part_number',
          Part.etag = etag',
          Part.last_modified = last_modified',
          Part.size_field = size'\<rparr>))))"

record 'i ListPartsResult =
  bucket_name :: "string option"
  object_name :: "string option"
  initiator_id :: "string option"
  initiator_name :: "string option"
  owner_id :: "string option"
  owner_name :: "string option"
  storage_class :: "string option"
  part_number_marker :: "string option"
  next_part_number_marker :: "'i pyval"
  max_parts :: "'i pyval"
  is_truncated :: bool
  parts :: "'i Part list"

text \<open>
  \<^verbatim>\<open>None if tag is None else findtext(tag, name)\<close>, for \<^verbatim>\<open>tag\<close> the Initiator or
  the Owner element.
\<close>

definition sub_field :: "element option \<Rightarrow> string \<Rightarrow> string option" where
  "sub_field t sub = (case t of None \<Rightarrow> None | Some e \<Rightarrow> findtext e sub)"

text \<open>
  \<^verbatim>\<open>t = findtext(element, "IsTruncated")\<close> followed by
  \<^verbatim>\<open>t is not None and t.lower() == "true"\<close>.
\<close>

definition truncated_flag :: "string option \<Rightarrow> bool" where
  "truncated_flag t = (case t of None \<Rightarrow> False | Some s \<Rightarrow> str_lower s = ''true'')"

definition ListPartsResult_init ::
  "'i externals \<Rightarrow> response \<Rightarrow> error + 'i ListPartsResult" where
  "ListPartsResult_init X response =
     on_ok (ET_fromstring X (data response)) (\<lambda>element.
     let initiator = find_xml element ''Initiator'';
         owner = find_xml element ''Owner'' in
     on_ok (int_if_truthy X (findtext element ''NextPartNumberMarker''))
       (\<lambda>next_part_number_marker'.
     on_ok (int_if_truthy X (findtext element ''MaxParts'')) (\<lambda>max_parts'.
     let is_truncated' = truncated_flag (findtext element ''IsTruncated'') in
     on_ok (comprehension (Part_fromxml X) (findall element ''Part'')) (\<lambda>parts'.
     Inr \<lparr>ListPartsResult.bucket_name = findtext element ''Bucket'',
          ListPartsResult.object_name = findtext element ''Key'',
          ListPartsResult.initiator_id = sub_field initiator ''ID'',
          ListPartsResult.initiator_name = sub_field initiator ''DisplayName'',
          ListPartsResult.owner_id = sub_field owner ''ID'',
          ListPartsResult.owner_name = sub_field owner ''DisplayName'',
          ListPartsResult.storage_class = findtext element ''StorageClass'',
          ListPartsResult.part_number_marker = findtext element ''PartNumberMarker'',
          ListPartsResult.next_part_number_marker = next_part_number_marker',
          ListPartsResult.max_parts = max_parts',
          ListPartsResult.is_truncated = is_truncated',
          ListPartsResult.parts = parts'\<rparr>))))"

subsection \<open>Upload and ListMultipartUploadsResult\<close>

record 'i Upload =
  object_name :: string
  upload_id :: "string option"
  initiator_id :: "string option"
  initiator_name :: "string option"
  owner_id :: "string option"
  owner_name :: "string option"
  storage_class :: "string option"
  initiated_time :: "'i pyval"

definition Upload_init :: "'i externals \<Rightarrow> element \<Rightarrow> error + 'i Upload" where
  "Upload_init X element =
     on_ok (findtext_strict element ''Key'') (\<lambda>key.
     let initiator = find_xml element ''Initiator'';
         owner = find_xml element ''Owner'' in
     on_ok (time_if_truthy X (findtext element ''Initiated'')) (\<lambda>initiated_time'.
     Inr \<lparr>Upload.object_name = unquote X key,
          Upload.upload_id = findtext element ''UploadId'',
          Upload.initiator_id = sub_field initiator ''ID'',
          Upload.initiator_name = sub_field initiator ''DisplayName'',
          Upload.owner_id = sub_field owner ''ID'',
          Upload.owner_name = sub_field owner ''DisplayName'',
          Upload.storage_class = findtext element ''StorageClass'',
          Upload.initiated_time = initiated_time'\<rparr>))"

record 'i ListMultipartUploadsResult =
  bucket_name :: "string option"
  key_marker :: "string option"
  upload_id_marker :: "string option"
  next_key_marker :: "string option"
  next_upload_id_marker :: "string option"
  max_uploads :: "'i pyval"
  is_truncated :: bool
  uploads :: "'i Upload list"

text \<open>\<^verbatim>\<open>if m: m = unquote(m)\<close>.\<close>

definition unquote_if_truthy :: "'i externals \<Rightarrow> string option \<Rightarrow> string option" where
  "unquote_if_truthy X m =
     (case m of None \<Rightarrow> None | Some s \<Rightarrow> if s = [] then Some s else Some (unquote X s))"

definition ListMultipartUploadsResult_init ::
  "'i externals \<Rightarrow> response \<Rightarrow> error + 'i ListMultipartUploadsResult" where
  "ListMultipartUploadsResult_init X response =
     on_ok (ET_fromstring X (data response)) (\<lambda>element.
     on_ok (int_if_truthy X (findtext element ''MaxUploads'')) (\<lambda>max_uploads'.
     let is_truncated' = truncated_flag (findtext element ''IsTruncated'') in
     on_ok (comprehension (Upload_init X) (findall element ''Upload'')) (\<lambda>uploads'.
     Inr \<lparr>ListMultipartUploadsResult.bucket_name = findtext element ''Bucket'',
          ListMultipartUploadsResult.key_marker =
            unquote_if_truthy X (findtext element ''KeyMarker''),
          ListMultipartUploadsResult.upload_id_marker = findtext element ''UploadIdMarker'',
          ListMultipartUploadsResult.next_key_marker =
            unquote_if_truthy X (findtext element ''NextKeyMarker''),
          ListMultipartUploadsResult.next_upload_id_marker =
            findtext element ''NextUploadIdMarker'',
          ListMultipartUploadsResult.max_uploads = max_uploads',
          ListMultipartUploadsResult.is_truncated = is_truncated',
          ListMultipartUploadsResult.uploads = uploads'\<rparr>)))"

subsection \<open>Example responses\<close>

text \<open>
  Concrete element trees and responses, on which the functions are evaluated below. In
  the examples the parse of the body is a given tree, a timestamp is the length of its
  text, an integer is the length of its text and \<^verbatim>\<open>unquote\<close> changes nothing.
\<close>

definition leaf :: "string \<Rightarrow> string \<Rightarrow> element" where
  "leaf nm t = Element nm (Some t) []"

definition node :: "string \<Rightarrow> element list \<Rightarrow> element" where
  "node nm cs = Element nm None cs"

definition example_externals :: "element \<Rightarrow> nat externals" where
  "example_externals e =
     \<lparr>ET_fromstring = (\<lambda>_. Inr e), strptime_rfc3339 = (\<lambda>s. Inr (length s)),
      int_str = (\<lambda>s. Inr (int (length s))), unquote = (\<lambda>s. s)\<rparr>"

definition example_response :: response where
  "example_response = \<lparr>headers = [(''X-Amz-Version-Id'', ''v1'')], data = ''<xml/>''\<rparr>"

definition listing_zzz :: element where
  "listing_zzz =
     node ''ListBucketResult''
       [leaf ''IsTruncated'' ''true'',
        node ''Contents'' [leaf ''Key'' ''aaa''],
        node ''Contents'' [leaf ''Key'' ''zzz'']]"

definition listing_k1 :: element where
  "listing_k1 =
     node ''ListVersionsResult''
       [leaf ''NextKeyMarker'' ''k1'',
        leaf ''NextContinuationToken'' ''t1'',
        leaf ''NextMarker'' ''m1'',
        leaf ''IsTruncated'' ''true'',
        node ''Contents'' [leaf ''Key'' ''aaa'']]"

text \<open>The object that \<open>Object_fromxml\<close> builds from an element with a Key only.\<close>

definition key_only :: "string \<Rightarrow> string \<Rightarrow> nat Object" where
  "key_only b k = (Object_init b (Some k))\<lparr>metadata := Some []\<rparr>"

definition listing_groups :: element where
  "listing_groups =
     node ''ListVersionsResult''
       [node ''CommonPrefixes'' [leaf ''Prefix'' ''P/''],
        node ''Contents'' [leaf ''Key'' ''A''],
        node ''DeleteMarker'' [leaf ''Key'' ''D''],
        node ''Version'' [leaf ''Key'' ''C''],
        node ''Contents'' [leaf ''Key'' ''B'']]"

definition listing_upper :: element where
  "listing_upper = node ''ListBucketResult'' [leaf ''IsTruncated'' ''TRUE'']"

definition list_parts_doc :: element where
  "list_parts_doc =
     node ''ListPartsResult''
       [leaf ''Bucket'' ''b'',
        leaf ''Key'' ''k'',
        leaf ''IsTruncated'' ''True'',
        node ''Part''
          [leaf ''PartNumber'' ''1'', leaf ''ETag'' (CHR 0x22 # ''e1'' @ [CHR 0x22])]]"

definition list_parts_result :: "nat ListPartsResult" where
  "list_parts_result =
     \<lparr>ListPartsResult.bucket_name = Some ''b'', ListPartsResult.object_name = Some ''k'',
      ListPartsResult.initiator_id = None, ListPartsResult.initiator_name = None,
      ListPartsResult.owner_id = None, ListPartsResult.owner_name = None,
      ListPartsResult.storage_class = None, part_number_marker = None,
      next_part_number_marker = PyNone, max_parts = PyNone,
      ListPartsResult.is_truncated = True,
      parts = [\<lparr>part_number = PyStr ''1'', Part.etag = ''e1'',
                Part.last_modified = None, Part.size_field = PyNone\<rparr>]\<rparr>"

definition list_uploads_doc :: element where
  "list_uploads_doc =
     node ''ListMultipartUploadsResult''
       [leaf ''Bucket'' ''b'',
        leaf ''IsTruncated'' ''yes'',
        node ''Upload'' [leaf ''Key'' ''k'', leaf ''UploadId'' ''u1'']]"

definition list_uploads_result :: "nat ListMultipartUploadsResult" where
  "list_uploads_result =
     \<lparr>ListMultipartUploadsResult.bucket_name = Some ''b'', key_marker = None,
      upload_id_marker = None, next_key_marker = None, next_upload_id_marker = None,
      max_uploads = PyNone, ListMultipartUploadsResult.is_truncated = False,
      uploads = [\<lparr>Upload.object_name = ''k'', upload_id = Some ''u1'',
                  Upload.initiator_id = None, Upload.initiator_name = None,
                  Upload.owner_id = None, Upload.owner_name = None,
                  Upload.storage_class = None, initiated_time = PyNone\<rparr>]\<rparr>"

definition part_e1 :: element where
  "part_e1 =
     node ''Part''
       [leaf ''PartNumber'' ''1'', leaf ''ETag'' (CHR 0x22 # ''e1'' @ [CHR 0x22])]"

definition part_e1_result :: "nat Part" where
  "part_e1_result =
     \<lparr>part_number = PyStr ''1'', Part.etag = ''e1'', Part.last_modified = None,
      Part.size_field = PyNone\<rparr>"

definition part_no_etag :: element where
  "part_no_etag = node ''Part'' [leaf ''PartNumber'' ''1'']"

definition object_abc123 :: element where
  "object_abc123 =
     node ''Contents''
       [leaf ''Key'' ''k'', leaf ''ETag'' (CHR 0x22 # ''abc123'' @ [CHR 0x22])]"

definition part_abc123 :: element where
  "part_abc123 =
     node ''Part''
       [leaf ''PartNumber'' ''2'', leaf ''ETag'' (CHR 0x22 # ''abc123'' @ [CHR 0x22])]"

definition complete_abc123 :: element where
  "complete_abc123 =
     node ''CompleteMultipartUploadResult''
       [leaf ''Bucket'' ''b'', leaf ''Key'' ''k'',
        leaf ''ETag'' (CHR 0x22 # ''abc123'' @ [CHR 0x22])]"

definition complete_abc123_result :: CompleteMultipartUploadResult where
  "complete_abc123_result =
     \<lparr>CompleteMultipartUploadResult.bucket_name = Some ''b'',
      CompleteMultipartUploadResult.object_name = Some ''k'',
      location = None,
      CompleteMultipartUploadResult.etag = Some ''abc123'',
      CompleteMultipartUploadResult.version_id = Some ''v1'',
      http_headers = [(''X-Amz-Version-Id'', ''v1'')]\<rparr>"

text \<open>Elements whose ETag text is \<^verbatim>\<open>a"b\<close>, with a quote in the middle.\<close>

definition object_inner :: element where
  "object_inner =
     node ''Contents'' [leaf ''Key'' ''k'', leaf ''ETag'' (''a'' @ [CHR 0x22] @ ''b'')]"

definition part_inner :: element where
  "part_inner =
     node ''Part'' [leaf ''PartNumber'' ''2'', leaf ''ETag'' (''a'' @ [CHR 0x22] @ ''b'')]"

definition complete_inner :: element where
  "complete_inner =
     node ''CompleteMultipartUploadResult'' [leaf ''ETag'' (''a'' @ [CHR 0x22] @ ''b'')]"

definition complete_inner_result :: CompleteMultipartUploadResult where
  "complete_inner_result =
     \<lparr>CompleteMultipartUploadResult.bucket_name = None,
      CompleteMultipartUploadResult.object_name = None,
      location = None,
      CompleteMultipartUploadResult.etag = Some ''ab'',
      CompleteMultipartUploadResult.version_id = Some ''v1'',
      http_headers = [(''X-Amz-Version-Id'', ''v1'')]\<rparr>"

definition object_abc123_result :: "nat Object" where
  "object_abc123_result = (key_only ''b'' ''k'')\<lparr>Object.etag := Some ''abc123''\<rparr>"

definition part_abc123_result :: "nat Part" where
  "part_abc123_result =
     \<lparr>part_number = PyStr ''2'', Part.etag = ''abc123'', Part.last_modified = None,
      Part.size_field = PyNone\<rparr>"

definition object_inner_result :: "nat Object" where
  "object_inner_result = (key_only ''b'' ''k'')\<lparr>Object.etag := Some ''ab''\<rparr>"

definition part_inner_result :: "nat Part" where
  "part_inner_result =
     \<lparr>part_number = PyStr ''2'', Part.etag = ''ab'', Part.last_modified = None,
      Part.size_field = PyNone\<rparr>"

definition response_more_headers :: response where
  "response_more_headers =
     \<lparr>headers = [(''X-Amz-Version-Id'', ''v1''), (''Server'', ''MinIO'')],
      data = ''<xml/>''\<rparr>"

definition complete_more_headers_result :: CompleteMultipartUploadResult where
  "complete_more_headers_result =
     complete_abc123_result
       \<lparr>http_headers := [(''X-Amz-Version-Id'', ''v1''), (''Server'', ''MinIO'')]\<rparr>"







section \<open>Properties\<close>

subsection \<open>Auxiliary facts\<close>

lemma on_ok_Inr: "on_ok m f = Inr r \<longleftrightarrow> (\<exists>x. m = Inr x \<and> f x = Inr r)"
  by (cases m) (simp_all add: on_ok_def)

lemma on_ok_simps: "on_ok (Inl e) f = Inl e" "on_ok (Inr x) f = f x"
  by (simp_all add: on_ok_def)

lemma comprehension_Inr:
  "comprehension f xs = Inr ys \<longleftrightarrow> list_all2 (\<lambda>x y. f x = Inr y) xs ys"
proof (induction xs arbitrary: ys)
  case Nil
  show ?case by auto
next
  case (Cons x xs)
  show ?case
    by (cases ys) (auto simp: on_ok_Inr Cons.IH)
qed

lemma str_lower_version_id: "str_lower ''x-amz-version-id'' = ''x-amz-version-id''"
  by code_simp

lemma Object_fromxml_fields:
  assumes "Object_fromxml X element bn = Inr obj"
  shows "Object.object_name obj = findtext element ''Key''"
    and "Object.etag obj = map_option replace_quote (findtext element ''ETag'')"
    and "Object.metadata obj = Some (user_metadata element)"
    and "Object.bucket_name obj = bn"
  using assms
  by (auto simp: Object_fromxml_def on_ok_Inr Let_def split: option.splits prod.splits)

lemma Part_fromxml_Inr:
  "Part_fromxml X element = Inr p \<longleftrightarrow>
     (\<exists>n e lm sz. findtext_strict element ''PartNumber'' = Inr n \<and>
        findtext_strict element ''ETag'' = Inr e \<and>
        (case findtext element ''LastModified'' of
              None \<Rightarrow> Inr None
            | Some t \<Rightarrow> on_ok (strptime_rfc3339 X t) (\<lambda>i. Inr (Some i))) = Inr lm \<and>
        int_if_truthy X (findtext element ''Size'') = Inr sz \<and>
        p = \<lparr>Part.part_number = PyStr n, Part.etag = replace_quote e,
             Part.last_modified = lm, Part.size_field = sz\<rparr>)"
  by (auto simp: Part_fromxml_def on_ok_Inr Let_def)

lemma findtext_strict_Inr:
  "findtext_strict element nm = Inr t \<longleftrightarrow> findtext element nm = Some t \<and> t \<noteq> []"
  by (auto simp: findtext_strict_def split: option.splits)

lemma findtext_strict_Inl:
  "findtext_strict element nm = Inl e \<longleftrightarrow>
     e = MalformedResponse \<and> (findtext element nm = None \<or> findtext element nm = Some [])"
  by (auto simp: findtext_strict_def split: option.splits)


lemma or_empty_lower:
  "(str_lower (or_empty t) = ''true'') = (case t of None \<Rightarrow> False | Some s \<Rightarrow> str_lower s = ''true'')"
  by (auto simp: or_empty_def str_lower_def split: option.splits)


lemma parse_list_objects_unfold:
  assumes "ET_fromstring X (data response) = Inr element"
  shows "parse_list_objects X response bn =
     on_ok (comprehension (\<lambda>t. Object_fromxml X t bn) (findall element ''Contents''))
       (\<lambda>contents.
     on_ok (comprehension (\<lambda>t. Object_fromxml X t bn) (findall element ''Version''))
       (\<lambda>versions.
     on_ok (comprehension (\<lambda>t. Object_fromxml X t bn) (findall element ''DeleteMarker''))
       (\<lambda>delete_markers.
     Inr (contents @ versions @
            map (\<lambda>t. Object_init bn (findtext t ''Prefix''))
              (findall element ''CommonPrefixes'') @ delete_markers,
          str_lower (or_empty (findtext element ''IsTruncated'')) = ''true'',
          (case findtext element ''NextKeyMarker'' of
             Some k \<Rightarrow> Some k
           | None \<Rightarrow>
              (case findtext element ''NextContinuationToken'' of
                 Some c \<Rightarrow> Some c
               | None \<Rightarrow>
                  (case findtext element ''NextMarker'' of
                     Some m \<Rightarrow> Some m
                   | None \<Rightarrow>
                       if str_lower (or_empty (findtext element ''IsTruncated'')) = ''true''
                          \<and> contents \<noteq> []
                       then Object.object_name (last contents) else None))),
          findtext element ''NextVersionIdMarker''))))"
  by (cases "findtext element ''NextKeyMarker''";
      cases "findtext element ''NextContinuationToken''";
      cases "findtext element ''NextMarker''";
      cases "str_lower (or_empty (findtext element ''IsTruncated'')) = ''true''";
      simp add: parse_list_objects_def on_ok_simps Let_def assms)

lemma parse_list_objects_Inr:
  assumes "parse_list_objects X response bn = Inr (objects, trunc, token, vmarker)"
      and "ET_fromstring X (data response) = Inr element"
  shows "\<exists>contents versions delete_markers.
           comprehension (\<lambda>t. Object_fromxml X t bn) (findall element ''Contents'') = Inr contents \<and>
           comprehension (\<lambda>t. Object_fromxml X t bn) (findall element ''Version'') = Inr versions \<and>
           comprehension (\<lambda>t. Object_fromxml X t bn) (findall element ''DeleteMarker'') = Inr delete_markers \<and>
           objects = contents @ versions @
             map (\<lambda>t. Object_init bn (findtext t ''Prefix'')) (findall element ''CommonPrefixes'') @
             delete_markers \<and>
           trunc = (str_lower (or_empty (findtext element ''IsTruncated'')) = ''true'') \<and>
           token =
             (case findtext element ''NextKeyMarker'' of
                Some k \<Rightarrow> Some k
              | None \<Rightarrow>
                 (case findtext element ''NextContinuationToken'' of
                    Some c \<Rightarrow> Some c
                  | None \<Rightarrow>
                     (case findtext element ''NextMarker'' of
                        Some m \<Rightarrow> Some m
                      | None \<Rightarrow>
                          if trunc \<and> contents \<noteq> []
                          then Object.object_name (last contents) else None))) \<and>
           vmarker = findtext element ''NextVersionIdMarker''"
  using assms(1) unfolding parse_list_objects_unfold [OF assms(2)] on_ok_Inr
  by (elim exE conjE) (simp only: sum.inject prod.inject, blast)


subsection \<open>Continuation token of an object listing\<close>

text \<open>
  C1: the continuation token that \<open>parse_list_objects\<close> returns is the text of
  NextKeyMarker when that element is present; otherwise the text of
  NextContinuationToken when present; otherwise the text of NextMarker when present;
  otherwise, when the listing is truncated, the object name of the last Contents entry,
  which is the object at position (number of Contents elements - 1) of the result, built
  from the last Contents element; otherwise it is absent. A truncated listing without a
  Contents element has no last entry, and the token is absent.
\<close>

theorem parse_list_objects_continuation_token:
  assumes "ET_fromstring X (data response) = Inr element"
      and "parse_list_objects X response bn = Inr (objects, trunc, token, vmarker)"
  shows "token =
     (case findtext element ''NextKeyMarker'' of
        Some k \<Rightarrow> Some k
      | None \<Rightarrow>
         (case findtext element ''NextContinuationToken'' of
            Some c \<Rightarrow> Some c
          | None \<Rightarrow>
             (case findtext element ''NextMarker'' of
                Some m \<Rightarrow> Some m
              | None \<Rightarrow>
                  if trunc \<and> findall element ''Contents'' \<noteq> []
                  then Object.object_name
                         (objects ! (length (findall element ''Contents'') - 1))
                  else None))) \<and>
     (findall element ''Contents'' \<noteq> [] \<longrightarrow>
        Object_fromxml X (last (findall element ''Contents'')) bn =
          Inr (objects ! (length (findall element ''Contents'') - 1)))"
proof -
  let ?cs = "findall element ''Contents''"
  from parse_list_objects_Inr [OF assms(2) assms(1)]
  obtain contents versions delete_markers where
    c: "comprehension (\<lambda>t. Object_fromxml X t bn) ?cs = Inr contents" and
    o: "objects = contents @ versions @
          map (\<lambda>t. Object_init bn (findtext t ''Prefix'')) (findall element ''CommonPrefixes'') @
          delete_markers" and
    t: "token =
             (case findtext element ''NextKeyMarker'' of
                Some k \<Rightarrow> Some k
              | None \<Rightarrow>
                 (case findtext element ''NextContinuationToken'' of
                    Some c \<Rightarrow> Some c
                  | None \<Rightarrow>
                     (case findtext element ''NextMarker'' of
                        Some m \<Rightarrow> Some m
                      | None \<Rightarrow>
                          if trunc \<and> contents \<noteq> []
                          then Object.object_name (last contents) else None)))"
    by blast
  from c have l2: "list_all2 (\<lambda>x y. Object_fromxml X x bn = Inr y) ?cs contents"
    by (simp add: comprehension_Inr)
  then have len: "length contents = length ?cs"
    by (rule list_all2_lengthD [symmetric])
  have nth: "objects ! (length ?cs - 1) = last contents" if ne: "contents \<noteq> []"
  proof -
    from ne have lt: "length contents - 1 < length contents"
      by simp
    have "objects ! (length contents - 1) = contents ! (length contents - 1)"
      unfolding o using lt by (simp only: nth_append if_True)
    with ne len show ?thesis
      by (simp add: last_conv_nth)
  qed
  have empty: "(contents = []) = (?cs = [])"
    using len by (metis length_0_conv)
  have lastp: "?cs \<noteq> [] \<Longrightarrow> Object_fromxml X (last ?cs) bn = Inr (last contents)"
  proof -
    assume ne: "?cs \<noteq> []"
    then have "length ?cs - 1 < length ?cs" by simp
    with l2 have "Object_fromxml X (?cs ! (length ?cs - 1)) bn = Inr (contents ! (length ?cs - 1))"
      by (rule list_all2_nthD)
    with ne len empty show ?thesis
      by (simp add: last_conv_nth)
  qed
  have key: "(if trunc \<and> contents \<noteq> [] then Object.object_name (last contents) else None) =
             (if trunc \<and> ?cs \<noteq> [] then Object.object_name (objects ! (length ?cs - 1))
              else None)"
    using nth empty by simp
  have first: "token =
     (case findtext element ''NextKeyMarker'' of
        Some k \<Rightarrow> Some k
      | None \<Rightarrow>
         (case findtext element ''NextContinuationToken'' of
            Some c \<Rightarrow> Some c
          | None \<Rightarrow>
             (case findtext element ''NextMarker'' of
                Some m \<Rightarrow> Some m
              | None \<Rightarrow>
                  if trunc \<and> ?cs \<noteq> []
                  then Object.object_name (objects ! (length ?cs - 1))
                  else None)))"
    using t unfolding key .
  have second: "?cs \<noteq> [] \<longrightarrow>
        Object_fromxml X (last ?cs) bn = Inr (objects ! (length ?cs - 1))"
    using lastp nth empty by simp
  show ?thesis
    by (rule conjI [OF first second])
qed


theorem parse_list_objects_continuation_token_witness:
  "ET_fromstring (example_externals listing_zzz) (data example_response) = Inr listing_zzz \<and>
   parse_list_objects (example_externals listing_zzz) example_response ''b'' =
     Inr ([key_only ''b'' ''aaa'', key_only ''b'' ''zzz''], True, Some ''zzz'', None) \<and>
   parse_list_objects (example_externals listing_k1) example_response ''b'' =
     Inr ([key_only ''b'' ''aaa''], True, Some ''k1'', None) \<and>
   findtext listing_k1 ''NextKeyMarker'' = Some ''k1'' \<and>
   findtext listing_k1 ''NextContinuationToken'' = Some ''t1'' \<and>
   findtext listing_zzz ''NextKeyMarker'' = None \<and>
   findtext listing_zzz ''NextContinuationToken'' = None \<and>
   findtext listing_zzz ''NextMarker'' = None \<and>
   Object_fromxml (example_externals listing_zzz) (last (findall listing_zzz ''Contents'')) ''b''
     = Inr (key_only ''b'' ''zzz'')"
proof -
  have z1: "ET_fromstring (example_externals listing_zzz) (data example_response) =
              Inr listing_zzz"
    by (simp add: example_externals_def)
  have z2: "parse_list_objects (example_externals listing_zzz) example_response ''b'' =
              Inr ([key_only ''b'' ''aaa'', key_only ''b'' ''zzz''], True, Some ''zzz'', None)"
    by code_simp
  have k2: "parse_list_objects (example_externals listing_k1) example_response ''b'' =
              Inr ([key_only ''b'' ''aaa''], True, Some ''k1'', None)"
    by code_simp
  have g1: "findtext listing_k1 ''NextKeyMarker'' = Some ''k1''"
    by code_simp
  have g2: "findtext listing_k1 ''NextContinuationToken'' = Some ''t1''"
    by code_simp
  have f1: "findtext listing_zzz ''NextKeyMarker'' = None"
    by code_simp
  have f2: "findtext listing_zzz ''NextContinuationToken'' = None"
    by code_simp
  have f3: "findtext listing_zzz ''NextMarker'' = None"
    by code_simp
  have n1: "findall listing_zzz ''Contents'' \<noteq> []"
    by code_simp
  have n2: "length (findall listing_zzz ''Contents'') - 1 = Suc 0"
    by code_simp
  have "Object_fromxml (example_externals listing_zzz)
          (last (findall listing_zzz ''Contents'')) ''b'' =
        Inr ([key_only ''b'' ''aaa'', key_only ''b'' ''zzz''] !
               (length (findall listing_zzz ''Contents'') - 1))"
    by (rule mp [OF conjunct2 [OF parse_list_objects_continuation_token [OF z1 z2]] n1])
  then have l: "Object_fromxml (example_externals listing_zzz)
          (last (findall listing_zzz ''Contents'')) ''b'' = Inr (key_only ''b'' ''zzz'')"
    by (simp only: n2 nth_Cons_Suc nth_Cons_0)
  show ?thesis
    by (intro conjI z1 z2 k2 g1 g2 f1 f2 f3 l)
qed

lemma ListPartsResult_init_is_truncated:
  assumes "ET_fromstring X (data response) = Inr element"
      and "ListPartsResult_init X response = Inr r"
  shows "ListPartsResult.is_truncated r = truncated_flag (findtext element ''IsTruncated'')"
  using assms
  by (auto simp: ListPartsResult_init_def on_ok_Inr Let_def)

lemma ListMultipartUploadsResult_init_is_truncated:
  assumes "ET_fromstring X (data response) = Inr element"
      and "ListMultipartUploadsResult_init X response = Inr r"
  shows "ListMultipartUploadsResult.is_truncated r =
           truncated_flag (findtext element ''IsTruncated'')"
  using assms
  by (auto simp: ListMultipartUploadsResult_init_def on_ok_Inr Let_def)

lemma Object_fromxml_metadata:
  "Object_fromxml X t b = Inr obj \<Longrightarrow> metadata obj \<noteq> None"
  by (simp add: Object_fromxml_fields(3))

subsection \<open>Order of the objects of a listing\<close>

text \<open>
  C3: the objects that \<open>parse_list_objects\<close> returns are the objects built from the
  Contents elements, then those built from the Version elements, then one object for each
  CommonPrefixes element, then those built from the DeleteMarker elements; each group
  follows the order of its elements in the document (\<open>findall\<close> keeps the order of the
  children), and the element at a position of a group gives the object at that position.
\<close>

theorem parse_list_objects_order:
  assumes "ET_fromstring X (data response) = Inr element"
      and "parse_list_objects X response bn = Inr (objects, trunc, token, vmarker)"
  shows "\<exists>contents versions delete_markers.
     list_all2 (\<lambda>t obj. Object_fromxml X t bn = Inr obj)
       (findall element ''Contents'') contents \<and>
     list_all2 (\<lambda>t obj. Object_fromxml X t bn = Inr obj)
       (findall element ''Version'') versions \<and>
     list_all2 (\<lambda>t obj. Object_fromxml X t bn = Inr obj)
       (findall element ''DeleteMarker'') delete_markers \<and>
     objects = contents @ versions @
       map (\<lambda>t. Object_init bn (findtext t ''Prefix'')) (findall element ''CommonPrefixes'') @
       delete_markers"
  using parse_list_objects_Inr [OF assms(2) assms(1)]
  unfolding comprehension_Inr by blast

theorem parse_list_objects_order_witness:
  "ET_fromstring (example_externals listing_groups) (data example_response) =
     Inr listing_groups \<and>
   parse_list_objects (example_externals listing_groups) example_response ''b'' =
     Inr ([key_only ''b'' ''A'', key_only ''b'' ''B'', key_only ''b'' ''C'',
           Object_init ''b'' (Some ''P/''), key_only ''b'' ''D''], False, None, None) \<and>
   (\<exists>contents versions delete_markers.
     list_all2 (\<lambda>t obj. Object_fromxml (example_externals listing_groups) t ''b'' = Inr obj)
       (findall listing_groups ''Contents'') contents \<and>
     list_all2 (\<lambda>t obj. Object_fromxml (example_externals listing_groups) t ''b'' = Inr obj)
       (findall listing_groups ''Version'') versions \<and>
     list_all2 (\<lambda>t obj. Object_fromxml (example_externals listing_groups) t ''b'' = Inr obj)
       (findall listing_groups ''DeleteMarker'') delete_markers \<and>
     [key_only ''b'' ''A'', key_only ''b'' ''B'', key_only ''b'' ''C'',
      Object_init ''b'' (Some ''P/''), key_only ''b'' ''D''] =
       contents @ versions @
       map (\<lambda>t. Object_init ''b'' (findtext t ''Prefix''))
         (findall listing_groups ''CommonPrefixes'') @
       delete_markers)"
proof -
  have g1: "ET_fromstring (example_externals listing_groups) (data example_response) =
              Inr listing_groups"
    by (simp add: example_externals_def)
  have g2: "parse_list_objects (example_externals listing_groups) example_response ''b'' =
     Inr ([key_only ''b'' ''A'', key_only ''b'' ''B'', key_only ''b'' ''C'',
           Object_init ''b'' (Some ''P/''), key_only ''b'' ''D''], False, None, None)"
    by code_simp
  show ?thesis
    by (intro conjI g1 g2 parse_list_objects_order [OF g1 g2])
qed

subsection \<open>Objects of common prefixes\<close>

text \<open>
  C4: the object of the i-th CommonPrefixes element stands after the objects of the
  Contents and Version elements; its object name is the text of the Prefix of the element
  and its last_modified, etag, size, metadata, version_id, is_latest, storage_class,
  owner_id, owner_name and content_type are all absent (the bucket name is the argument
  of the call). No object that \<open>Object_fromxml\<close> builds is equal to it, because that
  function always sets the metadata to a dictionary.
\<close>

theorem common_prefix_object:
  assumes "ET_fromstring X (data response) = Inr element"
      and "parse_list_objects X response bn = Inr (objects, trunc, token, vmarker)"
  shows "\<forall>i < length (findall element ''CommonPrefixes'').
     objects ! (length (findall element ''Contents'') +
                length (findall element ''Version'') + i) =
       \<lparr>Object.bucket_name = bn,
        Object.object_name = findtext (findall element ''CommonPrefixes'' ! i) ''Prefix'',
        Object.last_modified = None, Object.etag = None, Object.size_field = None,
        metadata = None, Object.version_id = None, is_latest = None,
        Object.storage_class = None, Object.owner_id = None,
        Object.owner_name = None, content_type = None\<rparr> \<and>
     (\<forall>X' t b obj. Object_fromxml X' t b = Inr obj \<longrightarrow>
        (obj :: 'a Object) \<noteq>
          objects ! (length (findall element ''Contents'') +
                     length (findall element ''Version'') + i))"
proof (intro allI impI)
  fix i
  assume i: "i < length (findall element ''CommonPrefixes'')"
  let ?ps = "findall element ''CommonPrefixes''"
  let ?f = "\<lambda>t. Object_init bn (findtext t ''Prefix'') :: 'a Object"
  from parse_list_objects_Inr [OF assms(2) assms(1)]
  obtain contents versions delete_markers where
    c: "comprehension (\<lambda>t. Object_fromxml X t bn) (findall element ''Contents'') = Inr contents" and
    v: "comprehension (\<lambda>t. Object_fromxml X t bn) (findall element ''Version'') = Inr versions" and
    o: "objects = contents @ versions @ map ?f ?ps @ delete_markers"
    by blast
  have lc: "length (findall element ''Contents'') = length contents"
    using c unfolding comprehension_Inr by (rule list_all2_lengthD)
  have lv: "length (findall element ''Version'') = length versions"
    using v unfolding comprehension_Inr by (rule list_all2_lengthD)
  have "objects ! (length contents + length versions + i) = (map ?f ?ps @ delete_markers) ! i"
    unfolding o by (simp add: nth_append)
  also have "\<dots> = ?f (?ps ! i)"
    using i by (simp add: nth_append)
  finally have eq: "objects ! (length (findall element ''Contents'') +
                length (findall element ''Version'') + i) = ?f (?ps ! i)"
    by (simp only: lc lv)
  have m: "metadata (?f (?ps ! i)) = None"
    by (simp add: Object_init_def)
  have a: "?f (?ps ! i) =
       \<lparr>Object.bucket_name = bn,
        Object.object_name = findtext (findall element ''CommonPrefixes'' ! i) ''Prefix'',
        Object.last_modified = None, Object.etag = None, Object.size_field = None,
        metadata = None, Object.version_id = None, is_latest = None,
        Object.storage_class = None, Object.owner_id = None,
        Object.owner_name = None, content_type = None\<rparr>"
    by (simp add: Object_init_def)
  have b: "\<forall>X' t b obj. Object_fromxml X' t b = Inr obj \<longrightarrow>
             (obj :: 'a Object) \<noteq> ?f (?ps ! i)"
  proof (intro allI impI notI)
    fix X' :: "'a externals" and t b and obj :: "'a Object"
    assume h: "Object_fromxml X' t b = Inr obj" and e: "obj = ?f (?ps ! i)"
    from Object_fromxml_metadata [OF h] e m show False
      by simp
  qed
  show "objects ! (length (findall element ''Contents'') +
                length (findall element ''Version'') + i) =
       \<lparr>Object.bucket_name = bn,
        Object.object_name = findtext (findall element ''CommonPrefixes'' ! i) ''Prefix'',
        Object.last_modified = None, Object.etag = None, Object.size_field = None,
        metadata = None, Object.version_id = None, is_latest = None,
        Object.storage_class = None, Object.owner_id = None,
        Object.owner_name = None, content_type = None\<rparr> \<and>
     (\<forall>X' t b obj. Object_fromxml X' t b = Inr obj \<longrightarrow>
        (obj :: 'a Object) \<noteq>
          objects ! (length (findall element ''Contents'') +
                     length (findall element ''Version'') + i))"
    unfolding eq by (rule conjI [OF a b])
qed

theorem common_prefix_object_witness:
  "ET_fromstring (example_externals listing_groups) (data example_response) =
     Inr listing_groups \<and>
   parse_list_objects (example_externals listing_groups) example_response ''b'' =
     Inr ([key_only ''b'' ''A'', key_only ''b'' ''B'', key_only ''b'' ''C'',
           Object_init ''b'' (Some ''P/''), key_only ''b'' ''D''], False, None, None) \<and>
   0 < length (findall listing_groups ''CommonPrefixes'') \<and>
   findtext (findall listing_groups ''CommonPrefixes'' ! 0) ''Prefix'' = Some ''P/'' \<and>
   [key_only ''b'' ''A'', key_only ''b'' ''B'', key_only ''b'' ''C'',
    Object_init ''b'' (Some ''P/''), key_only ''b'' ''D''] !
     (length (findall listing_groups ''Contents'') +
      length (findall listing_groups ''Version'') + 0) =
       \<lparr>Object.bucket_name = ''b'',
        Object.object_name = findtext (findall listing_groups ''CommonPrefixes'' ! 0) ''Prefix'',
        Object.last_modified = None, Object.etag = None, Object.size_field = None,
        metadata = None, Object.version_id = None, is_latest = None,
        Object.storage_class = None, Object.owner_id = None,
        Object.owner_name = None, content_type = None\<rparr>"
proof -
  have g1: "ET_fromstring (example_externals listing_groups) (data example_response) =
              Inr listing_groups"
    by (simp add: example_externals_def)
  have g2: "parse_list_objects (example_externals listing_groups) example_response ''b'' =
     Inr ([key_only ''b'' ''A'', key_only ''b'' ''B'', key_only ''b'' ''C'',
           Object_init ''b'' (Some ''P/''), key_only ''b'' ''D''], False, None, None)"
    by code_simp
  have n: "0 < length (findall listing_groups ''CommonPrefixes'')"
    by code_simp
  have p: "findtext (findall listing_groups ''CommonPrefixes'' ! 0) ''Prefix'' = Some ''P/''"
    by code_simp
  note r = conjunct1 [OF mp [OF spec [OF common_prefix_object [OF g1 g2]] n]]
  show ?thesis
    by (intro conjI g1 g2 n p r)
qed

subsection \<open>The truncation flag\<close>

text \<open>
  C5: the is_truncated flag of an object listing, of a ListPartsResult and of a
  ListMultipartUploadsResult is true exactly when the response has an IsTruncated element
  whose text, in lower case, is "true"; any other text and an absent element give false.
\<close>

theorem is_truncated_iff_true:
  assumes "ET_fromstring X (data response) = Inr element"
  shows "(parse_list_objects X response bn = Inr (objects, trunc, token, vmarker) \<longrightarrow>
            trunc = (case findtext element ''IsTruncated'' of
                       None \<Rightarrow> False | Some t \<Rightarrow> str_lower t = ''true'')) \<and>
         (ListPartsResult_init X response = Inr lp \<longrightarrow>
            ListPartsResult.is_truncated lp =
              (case findtext element ''IsTruncated'' of
                 None \<Rightarrow> False | Some t \<Rightarrow> str_lower t = ''true'')) \<and>
         (ListMultipartUploadsResult_init X response = Inr lm \<longrightarrow>
            ListMultipartUploadsResult.is_truncated lm =
              (case findtext element ''IsTruncated'' of
                 None \<Rightarrow> False | Some t \<Rightarrow> str_lower t = ''true''))"
proof (intro conjI impI)
  assume "parse_list_objects X response bn = Inr (objects, trunc, token, vmarker)"
  from parse_list_objects_Inr [OF this assms]
  have "trunc = (str_lower (or_empty (findtext element ''IsTruncated'')) = ''true'')"
    by blast
  then show "trunc = (case findtext element ''IsTruncated'' of
                       None \<Rightarrow> False | Some t \<Rightarrow> str_lower t = ''true'')"
    by (simp only: or_empty_lower)
next
  assume "ListPartsResult_init X response = Inr lp"
  from ListPartsResult_init_is_truncated [OF assms this]
  show "ListPartsResult.is_truncated lp =
          (case findtext element ''IsTruncated'' of
             None \<Rightarrow> False | Some t \<Rightarrow> str_lower t = ''true'')"
    by (simp only: truncated_flag_def)
next
  assume "ListMultipartUploadsResult_init X response = Inr lm"
  from ListMultipartUploadsResult_init_is_truncated [OF assms this]
  show "ListMultipartUploadsResult.is_truncated lm =
          (case findtext element ''IsTruncated'' of
             None \<Rightarrow> False | Some t \<Rightarrow> str_lower t = ''true'')"
    by (simp only: truncated_flag_def)
qed

theorem is_truncated_iff_true_witness:
  "ET_fromstring (example_externals listing_upper) (data example_response) =
     Inr listing_upper \<and>
   parse_list_objects (example_externals listing_upper) example_response ''b'' =
     Inr ([], True, None, None) \<and>
   True = (case findtext listing_upper ''IsTruncated'' of
             None \<Rightarrow> False | Some t \<Rightarrow> str_lower t = ''true'') \<and>
   ET_fromstring (example_externals list_parts_doc) (data example_response) =
     Inr list_parts_doc \<and>
   ListPartsResult_init (example_externals list_parts_doc) example_response =
     Inr list_parts_result \<and>
   ListPartsResult.is_truncated list_parts_result =
     (case findtext list_parts_doc ''IsTruncated'' of
        None \<Rightarrow> False | Some t \<Rightarrow> str_lower t = ''true'') \<and>
   ET_fromstring (example_externals list_uploads_doc) (data example_response) =
     Inr list_uploads_doc \<and>
   ListMultipartUploadsResult_init (example_externals list_uploads_doc) example_response =
     Inr list_uploads_result \<and>
   ListMultipartUploadsResult.is_truncated list_uploads_result =
     (case findtext list_uploads_doc ''IsTruncated'' of
        None \<Rightarrow> False | Some t \<Rightarrow> str_lower t = ''true'') \<and>
   findtext listing_upper ''IsTruncated'' = Some ''TRUE'' \<and>
   findtext list_uploads_doc ''IsTruncated'' = Some ''yes'' \<and>
   \<not> ListMultipartUploadsResult.is_truncated list_uploads_result"
proof -
  have a1: "ET_fromstring (example_externals listing_upper) (data example_response) =
              Inr listing_upper"
    by (simp add: example_externals_def)
  have a2: "parse_list_objects (example_externals listing_upper) example_response ''b'' =
              Inr ([], True, None, None)"
    by code_simp
  have b1: "ET_fromstring (example_externals list_parts_doc) (data example_response) =
              Inr list_parts_doc"
    by (simp add: example_externals_def)
  have b2: "ListPartsResult_init (example_externals list_parts_doc) example_response =
              Inr list_parts_result"
    by code_simp
  have c1: "ET_fromstring (example_externals list_uploads_doc) (data example_response) =
              Inr list_uploads_doc"
    by (simp add: example_externals_def)
  have c2: "ListMultipartUploadsResult_init (example_externals list_uploads_doc)
              example_response = Inr list_uploads_result"
    by code_simp
  have t1: "findtext listing_upper ''IsTruncated'' = Some ''TRUE''"
    by code_simp
  have t2: "findtext list_uploads_doc ''IsTruncated'' = Some ''yes''"
    by code_simp
  have t3: "\<not> ListMultipartUploadsResult.is_truncated list_uploads_result"
    by (simp add: list_uploads_result_def)
  note w1 = mp [OF conjunct1 [OF is_truncated_iff_true [OF a1]] a2]
  note w2 = mp [OF conjunct1 [OF conjunct2 [OF is_truncated_iff_true [OF b1]]] b2]
  note w3 = mp [OF conjunct2 [OF conjunct2 [OF is_truncated_iff_true [OF c1]]] c2]
  show ?thesis
    by (intro conjI a1 a2 w1 b1 b2 w2 c1 c2 w3 t1 t2 t3)
qed

subsection \<open>The part number of a parsed Part\<close>

text \<open>
  C2 says that the part number of a parsed Part is an integer. \<open>Part_fromxml\<close> stores
  the text of the PartNumber element as it is: for the element with PartNumber 1 the
  part number is the string "1", not the integer 1, while the size of the same Part and
  the next part number marker of the listing go through \<^verbatim>\<open>int\<close>.
\<close>

theorem Part_fromxml_part_number_is_text:
  "Part_fromxml (example_externals part_e1) part_e1 = Inr part_e1_result \<and>
   part_number part_e1_result = PyStr ''1'' \<and>
   \<not> is_integer (part_number part_e1_result)"
proof (intro conjI)
  show "Part_fromxml (example_externals part_e1) part_e1 = Inr part_e1_result"
    by code_simp
  show "part_number part_e1_result = PyStr ''1''"
    by (simp add: part_e1_result_def)
  show "\<not> is_integer (part_number part_e1_result)"
    by (simp add: part_e1_result_def is_integer_def)
qed

lemma Part_fromxml_part_number_never_integer:
  "Part_fromxml X element = Inr p \<Longrightarrow> \<not> is_integer (part_number p)"
  by (auto simp: Part_fromxml_Inr is_integer_def)

lemma replace_quote_surrounded:
  "replace_quote (CHR 0x22 # s @ [CHR 0x22]) = filter (\<lambda>c. c \<noteq> CHR 0x22) s"
  by (simp add: replace_quote_def)

lemma filter_no_quote: "CHR 0x22 \<notin> set s \<Longrightarrow> filter (\<lambda>c. c \<noteq> CHR 0x22) s = s"
  by (induction s) auto

lemma Object_etag:
  assumes "findtext oe ''ETag'' = Some t" and "Object_fromxml X oe bn = Inr obj"
  shows "Object.etag obj = Some (replace_quote t)"
  using Object_fromxml_fields(2) [OF assms(2)] assms(1) by simp

lemma Part_etag:
  assumes "findtext pe ''ETag'' = Some t" and "Part_fromxml X pe = Inr p"
  shows "Part.etag p = replace_quote t"
  using assms by (auto simp: Part_fromxml_Inr findtext_strict_Inr)

lemma CompleteMultipartUploadResult_init_eq:
  assumes "ET_fromstring X (data response) = Inr root"
  shows "CompleteMultipartUploadResult_init X response =
     Inr \<lparr>CompleteMultipartUploadResult.bucket_name = findtext root ''Bucket'',
          CompleteMultipartUploadResult.object_name = findtext root ''Key'',
          location = findtext root ''Location'',
          CompleteMultipartUploadResult.etag =
            map_option replace_quote (findtext root ''ETag''),
          CompleteMultipartUploadResult.version_id = getheader response ''x-amz-version-id'',
          http_headers = headers response\<rparr>"
  by (cases "findtext root ''ETag''")
     (simp_all add: CompleteMultipartUploadResult_init_def on_ok_simps Let_def assms
        getheaders_def replace_quote_def)

lemma CompleteMultipartUploadResult_etag:
  assumes "ET_fromstring X (data response) = Inr root"
      and "findtext root ''ETag'' = Some t"
      and "CompleteMultipartUploadResult_init X response = Inr r"
  shows "CompleteMultipartUploadResult.etag r = Some (replace_quote t)"
  using assms(3) unfolding CompleteMultipartUploadResult_init_eq [OF assms(1)]
  by (auto simp: assms(2))

subsection \<open>ETags without their quotes\<close>

text \<open>
  C6: in an Object, a Part and a CompleteMultipartUploadResult, an ETag whose text in the
  XML is a quote character, a text s and a quote character is reported without those two
  quotes: the etag has no quote character, and it is s when s has none. The text
  "abc123" in quotes gives the etag abc123.
\<close>

theorem etag_surrounding_quotes_stripped:
  "(findtext oe ''ETag'' = Some (CHR 0x22 # s @ [CHR 0x22]) \<and>
    Object_fromxml X oe bn = Inr obj \<longrightarrow>
      Object.etag obj = Some (filter (\<lambda>c. c \<noteq> CHR 0x22) s) \<and>
      (CHR 0x22 \<notin> set s \<longrightarrow> Object.etag obj = Some s)) \<and>
   (findtext pe ''ETag'' = Some (CHR 0x22 # s @ [CHR 0x22]) \<and>
    Part_fromxml X pe = Inr p \<longrightarrow>
      Part.etag p = filter (\<lambda>c. c \<noteq> CHR 0x22) s \<and>
      (CHR 0x22 \<notin> set s \<longrightarrow> Part.etag p = s)) \<and>
   (ET_fromstring X (data response) = Inr root \<and>
    findtext root ''ETag'' = Some (CHR 0x22 # s @ [CHR 0x22]) \<and>
    CompleteMultipartUploadResult_init X response = Inr r \<longrightarrow>
      CompleteMultipartUploadResult.etag r = Some (filter (\<lambda>c. c \<noteq> CHR 0x22) s) \<and>
      (CHR 0x22 \<notin> set s \<longrightarrow> CompleteMultipartUploadResult.etag r = Some s))"
proof (intro conjI impI; (elim conjE)?)
  assume "findtext oe ''ETag'' = Some (CHR 0x22 # s @ [CHR 0x22])"
     and "Object_fromxml X oe bn = Inr obj"
  then show o: "Object.etag obj = Some (filter (\<lambda>c. c \<noteq> CHR 0x22) s)"
    by (simp only: Object_etag replace_quote_surrounded)
  then show "Object.etag obj = Some s" if "CHR 0x22 \<notin> set s"
    using that by (simp add: filter_no_quote)
next
  assume "findtext pe ''ETag'' = Some (CHR 0x22 # s @ [CHR 0x22])"
     and "Part_fromxml X pe = Inr p"
  then show "Part.etag p = filter (\<lambda>c. c \<noteq> CHR 0x22) s"
    by (simp only: Part_etag replace_quote_surrounded)
  then show "Part.etag p = s" if "CHR 0x22 \<notin> set s"
    using that by (simp add: filter_no_quote)
next
  assume "ET_fromstring X (data response) = Inr root"
     and "findtext root ''ETag'' = Some (CHR 0x22 # s @ [CHR 0x22])"
     and "CompleteMultipartUploadResult_init X response = Inr r"
  then show "CompleteMultipartUploadResult.etag r = Some (filter (\<lambda>c. c \<noteq> CHR 0x22) s)"
    by (simp only: CompleteMultipartUploadResult_etag replace_quote_surrounded)
  then show "CompleteMultipartUploadResult.etag r = Some s" if "CHR 0x22 \<notin> set s"
    using that by (simp add: filter_no_quote)
qed

theorem etag_surrounding_quotes_stripped_witness:
  "findtext object_abc123 ''ETag'' = Some (CHR 0x22 # ''abc123'' @ [CHR 0x22]) \<and>
   Object_fromxml (example_externals object_abc123) object_abc123 ''b'' =
     Inr object_abc123_result \<and>
   Object.etag object_abc123_result = Some ''abc123'' \<and>
   findtext part_abc123 ''ETag'' = Some (CHR 0x22 # ''abc123'' @ [CHR 0x22]) \<and>
   Part_fromxml (example_externals part_abc123) part_abc123 = Inr part_abc123_result \<and>
   Part.etag part_abc123_result = ''abc123'' \<and>
   ET_fromstring (example_externals complete_abc123) (data example_response) =
     Inr complete_abc123 \<and>
   findtext complete_abc123 ''ETag'' = Some (CHR 0x22 # ''abc123'' @ [CHR 0x22]) \<and>
   CompleteMultipartUploadResult_init (example_externals complete_abc123) example_response =
     Inr complete_abc123_result \<and>
   CompleteMultipartUploadResult.etag complete_abc123_result = Some ''abc123'' \<and>
   CHR 0x22 \<notin> set ''abc123''"
proof -
  have q: "CHR 0x22 \<notin> set ''abc123''"
    by simp
  have o1: "findtext object_abc123 ''ETag'' = Some (CHR 0x22 # ''abc123'' @ [CHR 0x22])"
    by code_simp
  have o2: "Object_fromxml (example_externals object_abc123) object_abc123 ''b'' =
              Inr object_abc123_result"
    by code_simp
  have p1: "findtext part_abc123 ''ETag'' = Some (CHR 0x22 # ''abc123'' @ [CHR 0x22])"
    by code_simp
  have p2: "Part_fromxml (example_externals part_abc123) part_abc123 = Inr part_abc123_result"
    by code_simp
  have c0: "ET_fromstring (example_externals complete_abc123) (data example_response) =
              Inr complete_abc123"
    by (simp add: example_externals_def)
  have c1: "findtext complete_abc123 ''ETag'' = Some (CHR 0x22 # ''abc123'' @ [CHR 0x22])"
    by code_simp
  have c2: "CompleteMultipartUploadResult_init (example_externals complete_abc123)
              example_response = Inr complete_abc123_result"
    by code_simp
  note o = mp [OF conjunct1 [OF etag_surrounding_quotes_stripped] conjI [OF o1 o2]]
  note p = mp [OF conjunct1 [OF conjunct2 [OF etag_surrounding_quotes_stripped]]
                conjI [OF p1 p2]]
  note c = mp [OF conjunct2 [OF conjunct2 [OF etag_surrounding_quotes_stripped]]
                conjI [OF c0 conjI [OF c1 c2]]]
  note o' = mp [OF conjunct2 [OF o] q]
  note p' = mp [OF conjunct2 [OF p] q]
  note c' = mp [OF conjunct2 [OF c] q]
  show ?thesis
    by (intro conjI o1 o2 o' p1 p2 p' c0 c1 c2 c' q)
qed

subsection \<open>Required and optional fields of a Part\<close>

text \<open>
  C7: \<open>Part_fromxml\<close> fails with MalformedResponse when the PartNumber or the ETag of
  the element is absent or empty; for an element with a PartNumber and an ETag, without
  LastModified and without Size, it returns a Part whose last_modified and size are
  absent.
\<close>

theorem Part_fromxml_required_fields:
  "(findtext element ''PartNumber'' = None \<or> findtext element ''PartNumber'' = Some [] \<or>
    findtext element ''ETag'' = None \<or> findtext element ''ETag'' = Some [] \<longrightarrow>
      Part_fromxml X element = Inl MalformedResponse) \<and>
   (findtext element ''PartNumber'' = Some n \<and> n \<noteq> [] \<and>
    findtext element ''ETag'' = Some e \<and> e \<noteq> [] \<and>
    findtext element ''LastModified'' = None \<and> findtext element ''Size'' = None \<longrightarrow>
      Part_fromxml X element =
        Inr \<lparr>part_number = PyStr n, Part.etag = filter (\<lambda>c. c \<noteq> CHR 0x22) e,
             Part.last_modified = None, Part.size_field = PyNone\<rparr>)"
proof (intro conjI impI)
  assume "findtext element ''PartNumber'' = None \<or> findtext element ''PartNumber'' = Some [] \<or>
    findtext element ''ETag'' = None \<or> findtext element ''ETag'' = Some []"
  then consider
      (number) "findtext_strict element ''PartNumber'' = Inl MalformedResponse"
    | (etag) n where "findtext_strict element ''PartNumber'' = Inr n"
        "findtext_strict element ''ETag'' = Inl MalformedResponse"
    by (cases "findtext_strict element ''PartNumber''")
       (auto simp: findtext_strict_Inl findtext_strict_Inr)
  then show "Part_fromxml X element = Inl MalformedResponse"
    by cases (simp_all add: Part_fromxml_def on_ok_simps)
next
  assume a: "findtext element ''PartNumber'' = Some n \<and> n \<noteq> [] \<and>
    findtext element ''ETag'' = Some e \<and> e \<noteq> [] \<and>
    findtext element ''LastModified'' = None \<and> findtext element ''Size'' = None"
  then have "findtext_strict element ''PartNumber'' = Inr n"
    and "findtext_strict element ''ETag'' = Inr e"
    by (simp_all add: findtext_strict_Inr)
  with a show "Part_fromxml X element =
        Inr \<lparr>part_number = PyStr n, Part.etag = filter (\<lambda>c. c \<noteq> CHR 0x22) e,
             Part.last_modified = None, Part.size_field = PyNone\<rparr>"
    by (simp add: Part_fromxml_def on_ok_simps int_if_truthy_def replace_quote_def)
qed

theorem Part_fromxml_required_fields_witness:
  "findtext part_no_etag ''ETag'' = None \<and>
   Part_fromxml (example_externals part_no_etag) part_no_etag = Inl MalformedResponse \<and>
   findtext part_e1 ''PartNumber'' = Some ''1'' \<and> ''1'' \<noteq> [] \<and>
   findtext part_e1 ''ETag'' = Some (CHR 0x22 # ''e1'' @ [CHR 0x22]) \<and>
   CHR 0x22 # ''e1'' @ [CHR 0x22] \<noteq> [] \<and>
   findtext part_e1 ''LastModified'' = None \<and> findtext part_e1 ''Size'' = None \<and>
   Part_fromxml (example_externals part_e1) part_e1 =
     Inr \<lparr>part_number = PyStr ''1'',
          Part.etag = filter (\<lambda>c. c \<noteq> CHR 0x22) (CHR 0x22 # ''e1'' @ [CHR 0x22]),
          Part.last_modified = None, Part.size_field = PyNone\<rparr> \<and>
   Part_fromxml (example_externals part_e1) part_e1 = Inr part_e1_result"
proof -
  have a: "findtext part_no_etag ''ETag'' = None"
    by code_simp
  then have a': "findtext part_no_etag ''PartNumber'' = None \<or>
      findtext part_no_etag ''PartNumber'' = Some [] \<or>
      findtext part_no_etag ''ETag'' = None \<or> findtext part_no_etag ''ETag'' = Some []"
    by (intro disjI2 disjI1)
  have b1: "findtext part_e1 ''PartNumber'' = Some ''1''"
    by code_simp
  have b2: "''1'' \<noteq> []"
    by simp
  have b3: "findtext part_e1 ''ETag'' = Some (CHR 0x22 # ''e1'' @ [CHR 0x22])"
    by code_simp
  have b4: "CHR 0x22 # ''e1'' @ [CHR 0x22] \<noteq> []"
    by simp
  have b5: "findtext part_e1 ''LastModified'' = None"
    by code_simp
  have b6: "findtext part_e1 ''Size'' = None"
    by code_simp
  have r: "Part_fromxml (example_externals part_e1) part_e1 = Inr part_e1_result"
    by code_simp
  note f = mp [OF conjunct1 [OF Part_fromxml_required_fields] a']
  note s = mp [OF conjunct2 [OF Part_fromxml_required_fields]
                conjI [OF b1 conjI [OF b2 conjI [OF b3 conjI [OF b4 conjI [OF b5 b6]]]]]]
  show ?thesis
    by (intro conjI a f b1 b2 b3 b4 b5 b6 s r)
qed

subsection \<open>Every quote of an ETag is deleted\<close>

text \<open>
  C10: in an Object, a Part and a CompleteMultipartUploadResult the etag is the text of
  the ETag element with every quote character deleted, wherever it stands: the text
  \<^verbatim>\<open>a"b\<close> gives the etag ab.
\<close>

theorem etag_all_quotes_deleted:
  "(findtext oe ''ETag'' = Some t \<and> Object_fromxml X oe bn = Inr obj \<longrightarrow>
      Object.etag obj = Some (filter (\<lambda>c. c \<noteq> CHR 0x22) t)) \<and>
   (findtext pe ''ETag'' = Some t \<and> Part_fromxml X pe = Inr p \<longrightarrow>
      Part.etag p = filter (\<lambda>c. c \<noteq> CHR 0x22) t) \<and>
   (ET_fromstring X (data response) = Inr root \<and> findtext root ''ETag'' = Some t \<and>
    CompleteMultipartUploadResult_init X response = Inr r \<longrightarrow>
      CompleteMultipartUploadResult.etag r = Some (filter (\<lambda>c. c \<noteq> CHR 0x22) t))"
proof (intro conjI impI; elim conjE)
  assume "findtext oe ''ETag'' = Some t" and "Object_fromxml X oe bn = Inr obj"
  then have "Object.etag obj = Some (replace_quote t)"
    by (rule Object_etag)
  then show "Object.etag obj = Some (filter (\<lambda>c. c \<noteq> CHR 0x22) t)"
    by (simp only: replace_quote_def)
next
  assume "findtext pe ''ETag'' = Some t" and "Part_fromxml X pe = Inr p"
  then have "Part.etag p = replace_quote t"
    by (rule Part_etag)
  then show "Part.etag p = filter (\<lambda>c. c \<noteq> CHR 0x22) t"
    by (simp only: replace_quote_def)
next
  assume "ET_fromstring X (data response) = Inr root" and "findtext root ''ETag'' = Some t"
     and "CompleteMultipartUploadResult_init X response = Inr r"
  then have "CompleteMultipartUploadResult.etag r = Some (replace_quote t)"
    by (rule CompleteMultipartUploadResult_etag)
  then show "CompleteMultipartUploadResult.etag r = Some (filter (\<lambda>c. c \<noteq> CHR 0x22) t)"
    by (simp only: replace_quote_def)
qed

theorem etag_all_quotes_deleted_witness:
  "findtext object_inner ''ETag'' = Some (''a'' @ [CHR 0x22] @ ''b'') \<and>
   Object_fromxml (example_externals object_inner) object_inner ''b'' =
     Inr object_inner_result \<and>
   Object.etag object_inner_result =
     Some (filter (\<lambda>c. c \<noteq> CHR 0x22) (''a'' @ [CHR 0x22] @ ''b'')) \<and>
   findtext part_inner ''ETag'' = Some (''a'' @ [CHR 0x22] @ ''b'') \<and>
   Part_fromxml (example_externals part_inner) part_inner = Inr part_inner_result \<and>
   Part.etag part_inner_result = filter (\<lambda>c. c \<noteq> CHR 0x22) (''a'' @ [CHR 0x22] @ ''b'') \<and>
   ET_fromstring (example_externals complete_inner) (data example_response) =
     Inr complete_inner \<and>
   findtext complete_inner ''ETag'' = Some (''a'' @ [CHR 0x22] @ ''b'') \<and>
   CompleteMultipartUploadResult_init (example_externals complete_inner) example_response =
     Inr complete_inner_result \<and>
   CompleteMultipartUploadResult.etag complete_inner_result =
     Some (filter (\<lambda>c. c \<noteq> CHR 0x22) (''a'' @ [CHR 0x22] @ ''b'')) \<and>
   filter (\<lambda>c. c \<noteq> CHR 0x22) (''a'' @ [CHR 0x22] @ ''b'') = ''ab''"
proof -
  have f: "filter (\<lambda>c. c \<noteq> CHR 0x22) (''a'' @ [CHR 0x22] @ ''b'') = ''ab''"
    by simp
  have o1: "findtext object_inner ''ETag'' = Some (''a'' @ [CHR 0x22] @ ''b'')"
    by code_simp
  have o2: "Object_fromxml (example_externals object_inner) object_inner ''b'' =
              Inr object_inner_result"
    by code_simp
  have p1: "findtext part_inner ''ETag'' = Some (''a'' @ [CHR 0x22] @ ''b'')"
    by code_simp
  have p2: "Part_fromxml (example_externals part_inner) part_inner = Inr part_inner_result"
    by code_simp
  have c0: "ET_fromstring (example_externals complete_inner) (data example_response) =
              Inr complete_inner"
    by (simp add: example_externals_def)
  have c1: "findtext complete_inner ''ETag'' = Some (''a'' @ [CHR 0x22] @ ''b'')"
    by code_simp
  have c2: "CompleteMultipartUploadResult_init (example_externals complete_inner)
              example_response = Inr complete_inner_result"
    by code_simp
  note o = mp [OF conjunct1 [OF etag_all_quotes_deleted] conjI [OF o1 o2]]
  note p = mp [OF conjunct1 [OF conjunct2 [OF etag_all_quotes_deleted]] conjI [OF p1 p2]]
  note c = mp [OF conjunct2 [OF conjunct2 [OF etag_all_quotes_deleted]]
                conjI [OF c0 conjI [OF c1 c2]]]
  show ?thesis
    by (intro conjI o1 o2 o p1 p2 p c0 c1 c2 c f)
qed

lemma getheader_first_match:
  "getheader response nm =
     (case filter (\<lambda>(k, v). str_lower k = str_lower nm) (headers response) of
        [] \<Rightarrow> None
      | (k, v) # _ \<Rightarrow> Some v)"
proof -
  have "map_of (map (\<lambda>(k, v). (str_lower k, v)) hs) m =
          (case filter (\<lambda>(k, v). str_lower k = m) hs of [] \<Rightarrow> None | (k, v) # _ \<Rightarrow> Some v)"
    for hs :: "(string \<times> string) list" and m
    by (induction hs) auto
  then show ?thesis
    by (simp only: getheader_def)
qed

subsection \<open>Fields of a CompleteMultipartUploadResult that come from the headers\<close>

text \<open>
  C8 says that version_id, read from the header x-amz-version-id, is the only field of
  the result that comes from outside the XML document. The field http_headers comes from
  the response headers too: two responses with the same body and the same version header
  give results with different http_headers.
\<close>

theorem CompleteMultipartUploadResult_http_headers_counterexample:
  "data example_response = data response_more_headers \<and>
   getheader example_response ''x-amz-version-id'' =
     getheader response_more_headers ''x-amz-version-id'' \<and>
   CompleteMultipartUploadResult_init (example_externals complete_abc123) example_response =
     Inr complete_abc123_result \<and>
   CompleteMultipartUploadResult_init (example_externals complete_abc123)
     response_more_headers = Inr complete_more_headers_result \<and>
   http_headers complete_abc123_result \<noteq> http_headers complete_more_headers_result"
proof (intro conjI)
  show "data example_response = data response_more_headers"
    by (simp add: example_response_def response_more_headers_def)
  show "getheader example_response ''x-amz-version-id'' =
          getheader response_more_headers ''x-amz-version-id''"
    by code_simp
  show "CompleteMultipartUploadResult_init (example_externals complete_abc123)
          example_response = Inr complete_abc123_result"
    by code_simp
  show "CompleteMultipartUploadResult_init (example_externals complete_abc123)
          response_more_headers = Inr complete_more_headers_result"
    by code_simp
  show "http_headers complete_abc123_result \<noteq> http_headers complete_more_headers_result"
    by (simp add: complete_abc123_result_def complete_more_headers_result_def)
qed

text \<open>
  C8, amended: for a response whose body parses, the result exists; its version_id is
  the value of the first header whose name, in lower case, is x-amz-version-id, and is
  absent when there is none, whatever the XML document holds; its http_headers is the
  header list of the response; bucket_name, object_name, location and etag are
  determined by the XML document. So version_id and http_headers are the fields that come
  from outside the document.
\<close>

theorem CompleteMultipartUploadResult_outside_fields:
  assumes "ET_fromstring X (data response) = Inr root"
  shows "\<exists>r. CompleteMultipartUploadResult_init X response = Inr r \<and>
     CompleteMultipartUploadResult.version_id r =
       (case filter (\<lambda>(k, v). str_lower k = ''x-amz-version-id'') (headers response) of
          [] \<Rightarrow> None
        | (k, v) # _ \<Rightarrow> Some v) \<and>
     http_headers r = headers response \<and>
     CompleteMultipartUploadResult.bucket_name r = findtext root ''Bucket'' \<and>
     CompleteMultipartUploadResult.object_name r = findtext root ''Key'' \<and>
     location r = findtext root ''Location'' \<and>
     CompleteMultipartUploadResult.etag r =
       map_option (filter (\<lambda>c. c \<noteq> CHR 0x22)) (findtext root ''ETag'')"
proof -
  have v: "getheader response ''x-amz-version-id'' =
       (case filter (\<lambda>(k, v). str_lower k = ''x-amz-version-id'') (headers response) of
          [] \<Rightarrow> None
        | (k, v) # _ \<Rightarrow> Some v)"
    by (simp only: getheader_first_match str_lower_version_id)
  have q: "map_option replace_quote (findtext root ''ETag'') =
             map_option (filter (\<lambda>c. c \<noteq> CHR 0x22)) (findtext root ''ETag'')"
    by (cases "findtext root ''ETag''") (simp_all add: replace_quote_def)
  show ?thesis
    unfolding CompleteMultipartUploadResult_init_eq [OF assms]
    by (rule exI, rule conjI, rule refl) (simp add: v q)
qed

theorem CompleteMultipartUploadResult_outside_fields_witness:
  "ET_fromstring (example_externals complete_abc123) (data example_response) =
     Inr complete_abc123 \<and>
   (\<exists>r. CompleteMultipartUploadResult_init (example_externals complete_abc123)
          example_response = Inr r \<and>
     CompleteMultipartUploadResult.version_id r =
       (case filter (\<lambda>(k, v). str_lower k = ''x-amz-version-id'') (headers example_response) of
          [] \<Rightarrow> None
        | (k, v) # _ \<Rightarrow> Some v) \<and>
     http_headers r = headers example_response \<and>
     CompleteMultipartUploadResult.bucket_name r = findtext complete_abc123 ''Bucket'' \<and>
     CompleteMultipartUploadResult.object_name r = findtext complete_abc123 ''Key'' \<and>
     location r = findtext complete_abc123 ''Location'' \<and>
     CompleteMultipartUploadResult.etag r =
       map_option (filter (\<lambda>c. c \<noteq> CHR 0x22)) (findtext complete_abc123 ''ETag'')) \<and>
   CompleteMultipartUploadResult_init (example_externals complete_abc123) example_response =
     Inr complete_abc123_result \<and>
   CompleteMultipartUploadResult.version_id complete_abc123_result = Some ''v1'' \<and>
   headers example_response = [(''X-Amz-Version-Id'', ''v1'')] \<and>
   findtext complete_abc123 ''VersionId'' = None"
proof -
  have c0: "ET_fromstring (example_externals complete_abc123) (data example_response) =
              Inr complete_abc123"
    by (simp add: example_externals_def)
  have c2: "CompleteMultipartUploadResult_init (example_externals complete_abc123)
              example_response = Inr complete_abc123_result"
    by code_simp
  have v: "CompleteMultipartUploadResult.version_id complete_abc123_result = Some ''v1''"
    by (simp add: complete_abc123_result_def)
  have h: "headers example_response = [(''X-Amz-Version-Id'', ''v1'')]"
    by (simp add: example_response_def)
  have n: "findtext complete_abc123 ''VersionId'' = None"
    by code_simp
  show ?thesis
    by (intro conjI c0 CompleteMultipartUploadResult_outside_fields [OF c0] c2 v h n)
qed




text \<open>
  A CreationDate element without text is not parsed: the empty string is falsy, so the
  creation date of the bucket is the empty string.
\<close>

lemma time_if_truthy_empty: "time_if_truthy X (Some []) = Inr (PyStr [])"
  by (simp add: time_if_truthy_def)


subsection \<open>Bucket listing\<close>



end
